theory Spec2Isabelle
  imports Main "HOL-Library.Char_ord" "HOL-Library.List_Lexorder"
begin

section \<open>Data model\<close>

text \<open>
  The persistent store is reached through an ORM client; the controllers only use
  create, delete, unique lookup and filtered, ordered queries. Each table is a list
  of rows in storage order. Identifiers are strings, and JavaScript's truthiness test
  on an identifier (\<open>if (currentUserId)\<close>) is false for the empty string as well as
  for \<open>undefined\<close>.
\<close>

type_synonym ident = string

datatype visibility = PUBLIC | FRIENDS | PRIVATE

datatype notification_type = LIKE | COMMENT | FOLLOW

record user =
  user_id :: ident
  username :: string
  firstName :: string
  lastName :: string

record post =
  p_id :: ident
  p_authorId :: ident
  p_content :: "string option"
  p_visibility :: visibility
  p_location :: "string option"
  p_tags :: "string list"
  p_createdAt :: int

record comment =
  c_id :: ident
  c_content :: string
  c_userId :: ident
  c_postId :: ident
  c_parentId :: "ident option"
  c_createdAt :: int

record like =
  l_userId :: ident
  l_postId :: ident

record follow =
  followerId :: ident
  followingId :: ident

record notification =
  n_type :: notification_type
  n_message :: string
  n_recipientId :: ident
  n_triggererId :: ident
  n_relatedId :: "ident option"

record message =
  m_id :: ident
  m_content :: string
  m_senderId :: ident
  m_receiverId :: ident
  m_mediaUrl :: "string option"
  m_mediaType :: "string option"

record db =
  users :: "user list"
  posts :: "post list"
  comments :: "comment list"
  likes :: "like list"
  follows :: "follow list"
  notifications :: "notification list"
  messages :: "message list"

text \<open>
  Every store call is awaited inside the handler's \<open>try\<close> block, so a call that
  rejects ends the handler in its \<open>catch\<close> branch with the writes made so far kept.
  The set \<open>faults\<close> names the store calls that reject during one request.
\<close>

datatype store_op =
  UserFindUnique | PostFindUnique | PostFindMany | PostUpdate | PostDelete
  | LikeFindUnique | LikeCreate | LikeDelete
  | FollowFindUnique | FollowFindMany | FollowCreate
  | CommentFindUnique | CommentFindMany | CommentCount | CommentCreate
  | CommentUpdate | CommentDelete
  | NotificationCreate | MessageCreate

datatype failure = Failure (f_status: nat) (f_error: string) (f_message: string)

datatype 'a reply = Reply (r_status: nat) (r_message: string) (r_data: 'a)

definition internal :: "string \<Rightarrow> failure" where
  "internal e = Failure 500 e ''Internal server error''"

definition post_findUnique :: "db \<Rightarrow> ident \<Rightarrow> post option" where
  "post_findUnique d pid = find (\<lambda>p. p_id p = pid) (posts d)"

definition follow_findUnique :: "db \<Rightarrow> ident \<Rightarrow> ident \<Rightarrow> follow option" where
  "follow_findUnique d a b =
     find (\<lambda>f. followerId f = a \<and> followingId f = b) (follows d)"

definition like_findUnique :: "db \<Rightarrow> ident \<Rightarrow> ident \<Rightarrow> like option" where
  "like_findUnique d u p = find (\<lambda>l. l_userId l = u \<and> l_postId l = p) (likes d)"

section \<open>postController: getPostById\<close>

record post_view =
  pv_post :: post
  pv_isLiked :: bool

text \<open>
  \<open>req.user?.id\<close> is \<open>undefined\<close> for an anonymous request; \<open>None\<close> stands for it.
  The strict comparison \<open>post.authorId !== currentUserId\<close> is then always true.
  A reply carries the row and the viewer's \<open>isLiked\<close> flag; the joined author
  profile and the counters, which no handler's decision reads, are left out.
\<close>

definition postData :: "db \<Rightarrow> ident option \<Rightarrow> post \<Rightarrow> post_view" where
  "postData d currentUserId p =
     \<lparr> pv_post = p,
       pv_isLiked = (case currentUserId of
                       None \<Rightarrow> False
                     | Some uid \<Rightarrow> if uid = [] then False
                                   else like_findUnique d uid (p_id p) \<noteq> None) \<rparr>"

definition friendsOnly :: failure where
  "friendsOnly = Failure 403 ''Access denied'' ''This post is only visible to friends''"

definition getPostById ::
  "store_op set \<Rightarrow> db \<Rightarrow> user option \<Rightarrow> ident \<Rightarrow> failure + post_view reply" where
  "getPostById faults d reqUser pid =
     (let currentUserId = map_option user_id reqUser in
      if PostFindUnique \<in> faults then Inl (internal ''Failed to retrieve post'')
      else
       (case post_findUnique d pid of
          None \<Rightarrow> Inl (Failure 404 ''Post not found'' ''The requested post does not exist'')
        | Some p \<Rightarrow>
           (if p_visibility p = PRIVATE \<and> Some (p_authorId p) \<noteq> currentUserId
            then Inl (Failure 403 ''Access denied''
                        ''You do not have permission to view this post'')
            else
             (case (if p_visibility p = FRIENDS \<and> Some (p_authorId p) \<noteq> currentUserId
                    then (case currentUserId of
                            None \<Rightarrow> Some friendsOnly
                          | Some uid \<Rightarrow>
                             (if uid = [] then Some friendsOnly
                              else if FollowFindUnique \<in> faults
                              then Some (internal ''Failed to retrieve post'')
                              else if follow_findUnique d uid (p_authorId p) = None
                              then Some friendsOnly
                              else None))
                    else None) of
                Some f \<Rightarrow> Inl f
              | None \<Rightarrow> Inr (Reply 200 ''Post retrieved successfully''
                               (postData d currentUserId p))))))"

section \<open>postController: updatePost, deletePost\<close>

text \<open>
  The write handlers read \<open>req.validatedData\<close>, the object the route's validation
  schema produced (section \<open>Routes of the write handlers\<close>), and \<open>req.user\<close>, the
  identity set by the \<open>authenticate\<close> middleware. A schema that names no \<open>params\<close>
  key produces an object without one; \<open>const { id } = req.validatedData.params\<close>
  then throws inside the handler's \<open>try\<close> block and the handler answers 500. A
  unique lookup without a key is rejected by the store. A body field that is
  \<open>undefined\<close> is \<open>None\<close>.
\<close>

type_synonym params = "(string \<times> string) list"

record 'b validatedData =
  vd_body :: "'b option"
  vd_params :: "params option"

record post_update =
  up_content :: "string option"
  up_visibility :: "visibility option"
  up_location :: "string option"
  up_tags :: "string list option"

definition updateData :: "post_update \<Rightarrow> post \<Rightarrow> post" where
  "updateData b p =
     p\<lparr> p_content := (case up_content b of None \<Rightarrow> p_content p | Some c \<Rightarrow> Some c),
        p_visibility := (case up_visibility b of None \<Rightarrow> p_visibility p | Some v \<Rightarrow> v),
        p_location := (case up_location b of None \<Rightarrow> p_location p | Some l \<Rightarrow> Some l),
        p_tags := (case up_tags b of None \<Rightarrow> p_tags p | Some t \<Rightarrow> t) \<rparr>"

text \<open>Writes addressed by a unique key touch the first row that carries the key.\<close>

fun update_first :: "('a \<Rightarrow> bool) \<Rightarrow> ('a \<Rightarrow> 'a) \<Rightarrow> 'a list \<Rightarrow> 'a list" where
  "update_first P f [] = []"
| "update_first P f (x # xs) = (if P x then f x # xs else x # update_first P f xs)"

fun delete_first :: "('a \<Rightarrow> bool) \<Rightarrow> 'a list \<Rightarrow> 'a list" where
  "delete_first P [] = []"
| "delete_first P (x # xs) = (if P x then xs else x # delete_first P xs)"

definition updatePost ::
  "store_op set \<Rightarrow> db \<Rightarrow> user \<Rightarrow> post_update validatedData
     \<Rightarrow> (failure + post reply) \<times> db" where
  "updatePost faults d reqUser vd =
     (case vd_params vd of
        None \<Rightarrow> (Inl (internal ''Failed to update post''), d)
      | Some ps \<Rightarrow>
         (case vd_body vd of
            None \<Rightarrow> (Inl (internal ''Failed to update post''), d)
          | Some body \<Rightarrow>
             (let userId = user_id reqUser in
              if PostFindUnique \<in> faults then (Inl (internal ''Failed to update post''), d)
              else
               (case map_of ps ''id'' of
                  None \<Rightarrow> (Inl (internal ''Failed to update post''), d)
                | Some pid \<Rightarrow>
                   (case post_findUnique d pid of
                      None \<Rightarrow>
                        (Inl (Failure 404 ''Post not found''
                                ''The requested post does not exist''), d)
                    | Some existingPost \<Rightarrow>
                       (if p_authorId existingPost \<noteq> userId
                        then (Inl (Failure 403 ''Access denied''
                                     ''You can only edit your own posts''), d)
                        else if PostUpdate \<in> faults
                        then (Inl (internal ''Failed to update post''), d)
                        else (Inr (Reply 200 ''Post updated successfully''
                                     (updateData body existingPost)),
                              d\<lparr>posts := update_first (\<lambda>p. p_id p = pid)
                                              (updateData body) (posts d)\<rparr>)))))))"

definition deletePost ::
  "store_op set \<Rightarrow> db \<Rightarrow> user \<Rightarrow> 'b validatedData
     \<Rightarrow> (failure + unit reply) \<times> db" where
  "deletePost faults d reqUser vd =
     (case vd_params vd of
        None \<Rightarrow> (Inl (internal ''Failed to delete post''), d)
      | Some ps \<Rightarrow>
         (let userId = user_id reqUser in
          if PostFindUnique \<in> faults then (Inl (internal ''Failed to delete post''), d)
          else
           (case map_of ps ''id'' of
              None \<Rightarrow> (Inl (internal ''Failed to delete post''), d)
            | Some pid \<Rightarrow>
               (case post_findUnique d pid of
                  None \<Rightarrow>
                    (Inl (Failure 404 ''Post not found''
                            ''The requested post does not exist''), d)
                | Some existingPost \<Rightarrow>
                   (if p_authorId existingPost \<noteq> userId
                    then (Inl (Failure 403 ''Access denied''
                                 ''You can only delete your own posts''), d)
                    else if PostDelete \<in> faults
                    then (Inl (internal ''Failed to delete post''), d)
                    else (Inr (Reply 200 ''Post deleted successfully'' ()),
                          d\<lparr>posts := delete_first (\<lambda>p. p_id p = pid) (posts d)\<rparr>))))))"

section \<open>postController: likePost\<close>

definition likePost ::
  "store_op set \<Rightarrow> db \<Rightarrow> user \<Rightarrow> ident \<Rightarrow> (failure + bool reply) \<times> db" where
  "likePost faults d reqUser postId =
     (let userId = user_id reqUser in
      if PostFindUnique \<in> faults then (Inl (internal ''Failed to like/unlike post''), d)
      else
       (case post_findUnique d postId of
          None \<Rightarrow>
            (Inl (Failure 404 ''Post not found'' ''The requested post does not exist''), d)
        | Some p \<Rightarrow>
           (if LikeFindUnique \<in> faults
            then (Inl (internal ''Failed to like/unlike post''), d)
            else
             (case like_findUnique d userId postId of
                Some existingLike \<Rightarrow>
                 (if LikeDelete \<in> faults
                  then (Inl (internal ''Failed to like/unlike post''), d)
                  else (Inr (Reply 200 ''Post unliked successfully'' False),
                        d\<lparr>likes := delete_first
                                      (\<lambda>l. l_userId l = userId \<and> l_postId l = postId)
                                      (likes d)\<rparr>))
              | None \<Rightarrow>
                 (if LikeCreate \<in> faults
                  then (Inl (internal ''Failed to like/unlike post''), d)
                  else
                   (let d1 = d\<lparr>likes := likes d @ [\<lparr>l_userId = userId, l_postId = postId\<rparr>]\<rparr>
                    in if p_authorId p \<noteq> userId
                       then (if NotificationCreate \<in> faults
                             then (Inl (internal ''Failed to like/unlike post''), d1)
                             else (Inr (Reply 200 ''Post liked successfully'' True),
                                   d1\<lparr>notifications := notifications d1 @
                                        [\<lparr>n_type = LIKE,
                                          n_message = firstName reqUser @ '' '' @
                                                      lastName reqUser @ '' liked your post'',
                                          n_recipientId = p_authorId p,
                                          n_triggererId = userId,
                                          n_relatedId = Some postId\<rparr>]\<rparr>))
                       else (Inr (Reply 200 ''Post liked successfully'' True), d1)))))))"

text \<open>\<open>n\<close> consecutive calls by the same user on the same post, oldest reply first.\<close>

fun likeTimes ::
  "nat \<Rightarrow> store_op set \<Rightarrow> db \<Rightarrow> user \<Rightarrow> ident \<Rightarrow> (failure + bool reply) list \<times> db" where
  "likeTimes 0 faults d u pid = ([], d)"
| "likeTimes (Suc n) faults d u pid =
     (case likeTimes n faults d u pid of
        (rs, d1) \<Rightarrow> (case likePost faults d1 u pid of (r, d2) \<Rightarrow> (rs @ [r], d2)))"

definition likeRows :: "db \<Rightarrow> ident \<Rightarrow> ident \<Rightarrow> like list" where
  "likeRows d u pid = filter (\<lambda>l. l_userId l = u \<and> l_postId l = pid) (likes d)"

section \<open>postController: getFeed\<close>

text \<open>
  The query values \<open>page\<close> and \<open>limit\<close> are modelled by the integers they denote
  (a decimal string, on which the arithmetic coercion and \<open>parseInt\<close> agree);
  \<open>None\<close> is an absent parameter, replaced by the destructuring default.

  \<open>findMany\<close> with \<open>orderBy: { createdAt: 'desc' }\<close> returns the selected rows with
  later timestamps first. The query names no second key, so rows with equal
  timestamps come in whatever order the store holds them: the stable sort below
  leaves them in storage order. The client rejects a negative \<open>skip\<close>; a negative
  \<open>take\<close> counts rows from the end of the ordered result.
\<close>

record page_query =
  q_page :: "int option"
  q_limit :: "int option"

definition pageOf :: "page_query \<Rightarrow> int" where
  "pageOf q = (case q_page q of None \<Rightarrow> 1 | Some v \<Rightarrow> v)"

definition limitOr :: "int \<Rightarrow> page_query \<Rightarrow> int" where
  "limitOr dflt q = (case q_limit q of None \<Rightarrow> dflt | Some v \<Rightarrow> v)"

definition paginate :: "int \<Rightarrow> int \<Rightarrow> 'a list \<Rightarrow> 'a list option" where
  "paginate skip tk xs =
     (if skip < 0 then None
      else if 0 \<le> tk then Some (take (nat tk) (drop (nat skip) xs))
      else Some (rev (take (nat (- tk)) (drop (nat skip) (rev xs)))))"

definition newestFirst :: "post list \<Rightarrow> post list" where
  "newestFirst ps = sort_key (\<lambda>p. - p_createdAt p) ps"

definition followingIdsOf :: "db \<Rightarrow> ident \<Rightarrow> ident list" where
  "followingIdsOf d userId =
     map followingId (filter (\<lambda>f. followerId f = userId) (follows d)) @ [userId]"

definition feedWhere :: "ident list \<Rightarrow> ident \<Rightarrow> post \<Rightarrow> bool" where
  "feedWhere followingIds userId p =
     (p_authorId p \<in> set followingIds \<and>
      (p_visibility p = PUBLIC
       \<or> (p_visibility p = FRIENDS \<and> p_authorId p \<in> set followingIds)
       \<or> p_authorId p = userId))"

record feed_page =
  fp_posts :: "post_view list"
  fp_page :: int
  fp_limit :: int
  fp_hasMore :: bool

definition getFeed ::
  "store_op set \<Rightarrow> db \<Rightarrow> user \<Rightarrow> page_query \<Rightarrow> failure + feed_page reply" where
  "getFeed faults d reqUser q =
     (let page = pageOf q;
          limit = limitOr 10 q;
          userId = user_id reqUser;
          offset = (page - 1) * limit
      in if FollowFindMany \<in> faults then Inl (internal ''Failed to retrieve feed'')
         else
          (let followingIds = followingIdsOf d userId
           in if PostFindMany \<in> faults then Inl (internal ''Failed to retrieve feed'')
              else
               (case paginate offset limit
                       (newestFirst (filter (feedWhere followingIds userId) (posts d))) of
                  None \<Rightarrow> Inl (internal ''Failed to retrieve feed'')
                | Some ps \<Rightarrow>
                    Inr (Reply 200 ''Feed retrieved successfully''
                          \<lparr> fp_posts =
                              map (\<lambda>p. \<lparr> pv_post = p,
                                         pv_isLiked = (like_findUnique d userId (p_id p) \<noteq> None) \<rparr>)
                                  ps,
                            fp_page = page,
                            fp_limit = limit,
                            fp_hasMore = (int (length ps) = limit) \<rparr>))))"

section \<open>commentController\<close>

record comment_body =
  cb_content :: string
  cb_parentId :: "ident option"

definition comment_findUnique :: "db \<Rightarrow> ident \<Rightarrow> comment option" where
  "comment_findUnique d cid = find (\<lambda>c. c_id c = cid) (comments d)"

text \<open>
  The store assigns the new row's identifier and timestamp; they are the parameters
  \<open>newId\<close> and \<open>now\<close>. \<open>if (parentId)\<close> is false for an absent and for an empty
  \<open>parentId\<close>.
\<close>

definition truthy :: "ident option \<Rightarrow> bool" where
  "truthy x = (case x of None \<Rightarrow> False | Some s \<Rightarrow> s \<noteq> [])"

definition createComment ::
  "store_op set \<Rightarrow> db \<Rightarrow> user \<Rightarrow> ident \<Rightarrow> comment_body \<Rightarrow> ident \<Rightarrow> int
     \<Rightarrow> (failure + comment reply) \<times> db" where
  "createComment faults d reqUser postId body newId now =
     (let userId = user_id reqUser; parentId = cb_parentId body in
      if PostFindUnique \<in> faults then (Inl (internal ''Failed to create comment''), d)
      else
       (case post_findUnique d postId of
          None \<Rightarrow>
            (Inl (Failure 404 ''Post not found''
                    ''The post you are trying to comment on does not exist''), d)
        | Some p \<Rightarrow>
           (if p_visibility p = PRIVATE \<and> p_authorId p \<noteq> userId
            then (Inl (Failure 403 ''Access denied''
                         ''You cannot comment on this private post''), d)
            else if p_visibility p = FRIENDS \<and> p_authorId p \<noteq> userId
                    \<and> FollowFindUnique \<in> faults
            then (Inl (internal ''Failed to create comment''), d)
            else if p_visibility p = FRIENDS \<and> p_authorId p \<noteq> userId
                    \<and> follow_findUnique d userId (p_authorId p) = None
            then (Inl (Failure 403 ''Access denied'' ''You cannot comment on this post''), d)
            else if truthy parentId \<and> CommentFindUnique \<in> faults
            then (Inl (internal ''Failed to create comment''), d)
            else if (case parentId of
                       None \<Rightarrow> False
                     | Some pc \<Rightarrow>
                         pc \<noteq> [] \<and>
                         (case comment_findUnique d pc of
                            None \<Rightarrow> True
                          | Some parentComment \<Rightarrow> c_postId parentComment \<noteq> postId))
            then (Inl (Failure 404 ''Parent comment not found''
                         ''The comment you are replying to does not exist''), d)
            else if CommentCreate \<in> faults
            then (Inl (internal ''Failed to create comment''), d)
            else
             (let cmt = \<lparr> c_id = newId, c_content = cb_content body, c_userId = userId,
                          c_postId = postId, c_parentId = parentId, c_createdAt = now \<rparr>;
                  d1 = d\<lparr>comments := comments d @ [cmt]\<rparr>
              in if p_authorId p \<noteq> userId
                 then (if NotificationCreate \<in> faults
                       then (Inl (internal ''Failed to create comment''), d1)
                       else (Inr (Reply 201 ''Comment created successfully'' cmt),
                             d1\<lparr>notifications := notifications d1 @
                                  [\<lparr>n_type = COMMENT,
                                    n_message = firstName reqUser @ '' '' @
                                                lastName reqUser @ '' commented on your post'',
                                    n_recipientId = p_authorId p,
                                    n_triggererId = userId,
                                    n_relatedId = Some postId\<rparr>]\<rparr>))
                 else (Inr (Reply 201 ''Comment created successfully'' cmt), d1)))))"

text \<open>
  The two listing handlers. \<open>getPostComments\<close> selects the post's \<open>authorId\<close> and
  \<open>visibility\<close> but tests only whether the post exists; \<open>getCommentReplies\<close> reads
  no post at all. Neither reads \<open>req.user\<close>; the parameter is kept so that the
  handlers can be compared with \<open>getPostById\<close> for the same viewer. The \<open>pages\<close>
  field of the reply (a floating-point quotient) is left out.
\<close>

record comment_view =
  cv_comment :: comment
  cv_replies :: "comment list"
  cv_replyCount :: nat

record comments_page =
  cp_comments :: "comment_view list"
  cp_page :: int
  cp_limit :: int
  cp_total :: nat

record replies_page =
  rp_replies :: "comment list"
  rp_page :: int
  rp_limit :: int
  rp_total :: nat

definition repliesOf :: "db \<Rightarrow> ident \<Rightarrow> comment list" where
  "repliesOf d cid = filter (\<lambda>r. c_parentId r = Some cid) (comments d)"

definition getPostComments ::
  "store_op set \<Rightarrow> db \<Rightarrow> user option \<Rightarrow> ident \<Rightarrow> page_query
     \<Rightarrow> failure + comments_page reply" where
  "getPostComments faults d reqUser postId q =
     (let page = pageOf q;
          limit = limitOr 20 q;
          offset = (page - 1) * limit
      in if PostFindUnique \<in> faults then Inl (internal ''Failed to retrieve comments'')
         else
          (case post_findUnique d postId of
             None \<Rightarrow> Inl (Failure 404 ''Post not found'' ''The requested post does not exist'')
           | Some p \<Rightarrow>
              (if CommentFindMany \<in> faults
               then Inl (internal ''Failed to retrieve comments'')
               else
                (let topLevel = filter (\<lambda>c. c_postId c = postId \<and> c_parentId c = None)
                                  (comments d)
                 in case paginate offset limit
                           (sort_key (\<lambda>c. - c_createdAt c) topLevel) of
                      None \<Rightarrow> Inl (internal ''Failed to retrieve comments'')
                    | Some cs \<Rightarrow>
                       (if CommentCount \<in> faults
                        then Inl (internal ''Failed to retrieve comments'')
                        else Inr (Reply 200 ''Comments retrieved successfully''
                               \<lparr> cp_comments =
                                   map (\<lambda>c. \<lparr> cv_comment = c,
                                              cv_replies =
                                                take 3 (sort_key c_createdAt
                                                          (repliesOf d (c_id c))),
                                              cv_replyCount = length (repliesOf d (c_id c)) \<rparr>)
                                       cs,
                                 cp_page = page,
                                 cp_limit = limit,
                                 cp_total = length topLevel \<rparr>))))))"

definition getCommentReplies ::
  "store_op set \<Rightarrow> db \<Rightarrow> user option \<Rightarrow> ident \<Rightarrow> page_query
     \<Rightarrow> failure + replies_page reply" where
  "getCommentReplies faults d reqUser commentId q =
     (let page = pageOf q;
          limit = limitOr 10 q;
          offset = (page - 1) * limit
      in if CommentFindMany \<in> faults then Inl (internal ''Failed to retrieve replies'')
         else
          (case paginate offset limit (sort_key c_createdAt (repliesOf d commentId)) of
             None \<Rightarrow> Inl (internal ''Failed to retrieve replies'')
           | Some rs \<Rightarrow>
              (if CommentCount \<in> faults
               then Inl (internal ''Failed to retrieve replies'')
               else Inr (Reply 200 ''Replies retrieved successfully''
                      \<lparr> rp_replies = rs,
                        rp_page = page,
                        rp_limit = limit,
                        rp_total = length (repliesOf d commentId) \<rparr>))))"

definition updateComment ::
  "store_op set \<Rightarrow> db \<Rightarrow> user \<Rightarrow> comment_body validatedData
     \<Rightarrow> (failure + comment reply) \<times> db" where
  "updateComment faults d reqUser vd =
     (case vd_params vd of
        None \<Rightarrow> (Inl (internal ''Failed to update comment''), d)
      | Some ps \<Rightarrow>
         (case vd_body vd of
            None \<Rightarrow> (Inl (internal ''Failed to update comment''), d)
          | Some body \<Rightarrow>
             (let newContent = cb_content body; userId = user_id reqUser in
              if CommentFindUnique \<in> faults
              then (Inl (internal ''Failed to update comment''), d)
              else
               (case map_of ps ''id'' of
                  None \<Rightarrow> (Inl (internal ''Failed to update comment''), d)
                | Some cid \<Rightarrow>
                   (case comment_findUnique d cid of
                      None \<Rightarrow>
                        (Inl (Failure 404 ''Comment not found''
                                ''The requested comment does not exist''), d)
                    | Some existingComment \<Rightarrow>
                       (if c_userId existingComment \<noteq> userId
                        then (Inl (Failure 403 ''Access denied''
                                     ''You can only edit your own comments''), d)
                        else if CommentUpdate \<in> faults
                        then (Inl (internal ''Failed to update comment''), d)
                        else (Inr (Reply 200 ''Comment updated successfully''
                                     (existingComment\<lparr>c_content := newContent\<rparr>)),
                              d\<lparr>comments := update_first (\<lambda>c. c_id c = cid)
                                                (\<lambda>c. c\<lparr>c_content := newContent\<rparr>)
                                                (comments d)\<rparr>)))))))"

definition deleteComment ::
  "store_op set \<Rightarrow> db \<Rightarrow> user \<Rightarrow> 'b validatedData
     \<Rightarrow> (failure + unit reply) \<times> db" where
  "deleteComment faults d reqUser vd =
     (case vd_params vd of
        None \<Rightarrow> (Inl (internal ''Failed to delete comment''), d)
      | Some ps \<Rightarrow>
         (let userId = user_id reqUser in
          if CommentFindUnique \<in> faults
          then (Inl (internal ''Failed to delete comment''), d)
          else
           (case map_of ps ''id'' of
              None \<Rightarrow> (Inl (internal ''Failed to delete comment''), d)
            | Some cid \<Rightarrow>
               (case comment_findUnique d cid of
                  None \<Rightarrow>
                    (Inl (Failure 404 ''Comment not found''
                            ''The requested comment does not exist''), d)
                | Some existingComment \<Rightarrow>
                   (if c_userId existingComment \<noteq> userId
                    then (Inl (Failure 403 ''Access denied''
                                 ''You can only delete your own comments''), d)
                    else if CommentDelete \<in> faults
                    then (Inl (internal ''Failed to delete comment''), d)
                    else (Inr (Reply 200 ''Comment deleted successfully'' ()),
                          d\<lparr>comments := delete_first (\<lambda>c. c_id c = cid)
                                            (comments d)\<rparr>))))))"

section \<open>Routes of the write handlers\<close>

text \<open>
  \<open>validateRequest(schema)\<close> parses \<open>{ body, query, params }\<close> with the schema. A
  parse error is answered 400 ``Validation failed'' and the handler does not run;
  otherwise \<open>req.validatedData\<close> is the parse result, which holds only the keys the
  schema names. The three schemas the write routes use:
  \<^item> \<open>createPost\<close> names \<open>body\<close> only (content of 1 to 5000 characters, visibility
    with default PUBLIC, location of at most 100 characters, at most 10 tags of at
    most 50 characters, all but the visibility optional);
  \<^item> \<open>createComment\<close> names \<open>body\<close> (content of 1 to 1000 characters, optional cuid
    \<open>parentId\<close>) and \<open>params\<close> with a cuid \<open>postId\<close>;
  \<^item> \<open>getPostById\<close> names \<open>params\<close> with a cuid \<open>id\<close>.

  A cuid, for the validation library, is the letter c in either case followed by at
  least eight characters, none of them white space or a hyphen. Request bodies are
  modelled with fields of the right type, present or absent, and lengths in
  characters of the model.
\<close>

definition validationFailed :: failure where
  "validationFailed = Failure 400 ''Validation failed'' ''Invalid request data''"

definition isCuid :: "string \<Rightarrow> bool" where
  "isCuid s =
     (case s of
        [] \<Rightarrow> False
      | c # rest \<Rightarrow>
          (c = CHR ''c'' \<or> c = CHR ''C'') \<and> 8 \<le> length rest \<and>
          list_all (\<lambda>x. x \<noteq> CHR ''-'' \<and> x \<noteq> CHR '' '' \<and> x \<noteq> CHR 0x09 \<and> x \<noteq> CHR 0x0A
                         \<and> x \<noteq> CHR 0x0B \<and> x \<noteq> CHR 0x0C \<and> x \<noteq> CHR 0x0D) rest)"

record 'b request =
  rq_params :: params
  rq_body :: 'b

definition validPostBody :: "post_update \<Rightarrow> bool" where
  "validPostBody b =
     ((case up_content b of None \<Rightarrow> True | Some c \<Rightarrow> 1 \<le> length c \<and> length c \<le> 5000)
      \<and> (case up_location b of None \<Rightarrow> True | Some l \<Rightarrow> length l \<le> 100)
      \<and> (case up_tags b of
            None \<Rightarrow> True
          | Some ts \<Rightarrow> length ts \<le> 10 \<and> list_all (\<lambda>t. length t \<le> 50) ts))"

definition schema_createPost ::
  "post_update request \<Rightarrow> failure + post_update validatedData" where
  "schema_createPost rq =
     (if validPostBody (rq_body rq)
      then Inr \<lparr> vd_body =
                  Some ((rq_body rq)
                          \<lparr>up_visibility :=
                             Some (case up_visibility (rq_body rq) of
                                     None \<Rightarrow> PUBLIC | Some v \<Rightarrow> v)\<rparr>),
                vd_params = None \<rparr>
      else Inl validationFailed)"

definition validCommentBody :: "comment_body \<Rightarrow> bool" where
  "validCommentBody b =
     (1 \<le> length (cb_content b) \<and> length (cb_content b) \<le> 1000
      \<and> (case cb_parentId b of None \<Rightarrow> True | Some pc \<Rightarrow> isCuid pc))"

definition schema_createComment ::
  "comment_body request \<Rightarrow> failure + comment_body validatedData" where
  "schema_createComment rq =
     (case map_of (rq_params rq) ''postId'' of
        None \<Rightarrow> Inl validationFailed
      | Some pid \<Rightarrow>
          if isCuid pid \<and> validCommentBody (rq_body rq)
          then Inr \<lparr> vd_body = Some (rq_body rq), vd_params = Some [(''postId'', pid)] \<rparr>
          else Inl validationFailed)"

definition schema_getPostById :: "'a request \<Rightarrow> failure + 'b validatedData" where
  "schema_getPostById rq =
     (case map_of (rq_params rq) ''id'' of
        None \<Rightarrow> Inl validationFailed
      | Some i \<Rightarrow>
          if isCuid i
          then Inr \<lparr> vd_body = None, vd_params = Some [(''id'', i)] \<rparr>
          else Inl validationFailed)"

text \<open>
  The four write routes of \<open>routes/posts.js\<close>, after \<open>authenticate\<close>. Each route
  pattern has the one parameter \<open>id\<close>.
  \<^item> \<open>router.put('/:id', authenticate, validateRequest(schemas.createPost), updatePost)\<close>
  \<^item> \<open>router.delete('/:id', authenticate, validateRequest(schemas.getPostById), deletePost)\<close>
  \<^item> \<open>router.put('/comments/:id', authenticate, validateRequest(schemas.createComment), updateComment)\<close>
  \<^item> \<open>router.delete('/comments/:id', authenticate, validateRequest(schemas.getPostById), deleteComment)\<close>
\<close>

definition route_put_post ::
  "store_op set \<Rightarrow> db \<Rightarrow> user \<Rightarrow> ident \<Rightarrow> post_update \<Rightarrow> (failure + post reply) \<times> db" where
  "route_put_post faults d reqUser pid body =
     (case schema_createPost \<lparr> rq_params = [(''id'', pid)], rq_body = body \<rparr> of
        Inl f \<Rightarrow> (Inl f, d)
      | Inr vd \<Rightarrow> updatePost faults d reqUser vd)"

definition route_delete_post ::
  "store_op set \<Rightarrow> db \<Rightarrow> user \<Rightarrow> ident \<Rightarrow> (failure + unit reply) \<times> db" where
  "route_delete_post faults d reqUser pid =
     (case (schema_getPostById \<lparr> rq_params = [(''id'', pid)], rq_body = () \<rparr>
              :: failure + unit validatedData) of
        Inl f \<Rightarrow> (Inl f, d)
      | Inr vd \<Rightarrow> deletePost faults d reqUser vd)"

definition route_put_comment ::
  "store_op set \<Rightarrow> db \<Rightarrow> user \<Rightarrow> ident \<Rightarrow> comment_body
     \<Rightarrow> (failure + comment reply) \<times> db" where
  "route_put_comment faults d reqUser cid body =
     (case schema_createComment \<lparr> rq_params = [(''id'', cid)], rq_body = body \<rparr> of
        Inl f \<Rightarrow> (Inl f, d)
      | Inr vd \<Rightarrow> updateComment faults d reqUser vd)"

definition route_delete_comment ::
  "store_op set \<Rightarrow> db \<Rightarrow> user \<Rightarrow> ident \<Rightarrow> (failure + unit reply) \<times> db" where
  "route_delete_comment faults d reqUser cid =
     (case (schema_getPostById \<lparr> rq_params = [(''id'', cid)], rq_body = () \<rparr>
              :: failure + unit validatedData) of
        Inl f \<Rightarrow> (Inl f, d)
      | Inr vd \<Rightarrow> deleteComment faults d reqUser vd)"

section \<open>userController: followUser\<close>

definition user_findUnique :: "db \<Rightarrow> ident \<Rightarrow> user option" where
  "user_findUnique d uid = find (\<lambda>u. user_id u = uid) (users d)"

definition followUser ::
  "store_op set \<Rightarrow> db \<Rightarrow> user \<Rightarrow> ident \<Rightarrow> (failure + unit reply) \<times> db" where
  "followUser faults d reqUser followingId' =
     (let followerId' = user_id reqUser in
      if followerId' = followingId'
      then (Inl (Failure 400 ''Invalid action'' ''You cannot follow yourself''), d)
      else if UserFindUnique \<in> faults then (Inl (internal ''Failed to follow user''), d)
      else
       (case user_findUnique d followingId' of
          None \<Rightarrow>
            (Inl (Failure 404 ''User not found''
                    ''The user you are trying to follow does not exist''), d)
        | Some targetUser \<Rightarrow>
           (if FollowFindUnique \<in> faults then (Inl (internal ''Failed to follow user''), d)
            else
             (case follow_findUnique d followerId' followingId' of
                Some existingFollow \<Rightarrow>
                  (Inl (Failure 409 ''Already following''
                          ''You are already following this user''), d)
              | None \<Rightarrow>
                 (if FollowCreate \<in> faults
                  then (Inl (internal ''Failed to follow user''), d)
                  else
                   (let d1 = d\<lparr>follows := follows d @
                                  [\<lparr>followerId = followerId', followingId = followingId'\<rparr>]\<rparr>
                    in if NotificationCreate \<in> faults
                       then (Inl (internal ''Failed to follow user''), d1)
                       else (Inr (Reply 200 ''Successfully followed user'' ()),
                             d1\<lparr>notifications := notifications d1 @
                                  [\<lparr>n_type = FOLLOW,
                                    n_message = firstName reqUser @ '' '' @
                                                lastName reqUser @ '' started following you'',
                                    n_recipientId = followingId',
                                    n_triggererId = followerId',
                                    n_relatedId = None\<rparr>]\<rparr>)))))))"

section \<open>Socket server: connection and send_message\<close>

text \<open>
  A room is a name with the set of connections that joined it. On connection the
  socket joins the room of its authenticated user, named \<open>user_\<close> followed by
  the user's id. An emitted event goes either to a room (\<open>io.to(room).emit\<close>) or to one socket (\<open>socket.emit\<close>).
  \<open>data\<close> is \<open>None\<close> when the client sent no payload, so that the destructuring
  throws. \<open>MessageCreate \<in> faults\<close> stands for every reason the store rejects the row.
\<close>

record socket =
  sock_id :: string
  sock_user :: user

record message_data =
  md_receiverId :: ident
  md_content :: string
  md_mediaUrl :: "string option"
  md_mediaType :: "string option"

datatype target = ToRoom string | ToSocket string

datatype payload =
  NewMessage message "user option"
  | MessageSent ident
  | ErrorMessage string

record emitted =
  e_target :: target
  e_event :: string
  e_payload :: payload

type_synonym rooms = "string \<Rightarrow> string set"

definition identityRoom :: "ident \<Rightarrow> string" where
  "identityRoom uid = ''user_'' @ uid"

definition on_connection :: "rooms \<Rightarrow> socket \<Rightarrow> rooms" where
  "on_connection rs s =
     rs(identityRoom (user_id (sock_user s)) :=
          insert (sock_id s) (rs (identityRoom (user_id (sock_user s)))))"

definition recipients :: "rooms \<Rightarrow> emitted \<Rightarrow> string set" where
  "recipients rs e = (case e_target e of ToRoom r \<Rightarrow> rs r | ToSocket sid \<Rightarrow> {sid})"

definition storedMessage :: "socket \<Rightarrow> message_data \<Rightarrow> ident \<Rightarrow> message" where
  "storedMessage s dt newId =
     \<lparr> m_id = newId, m_content = md_content dt,
       m_senderId = user_id (sock_user s), m_receiverId = md_receiverId dt,
       m_mediaUrl = md_mediaUrl dt, m_mediaType = md_mediaType dt \<rparr>"

definition send_message ::
  "store_op set \<Rightarrow> db \<Rightarrow> socket \<Rightarrow> message_data option \<Rightarrow> ident \<Rightarrow> emitted list \<times> db" where
  "send_message faults d s data newId =
     (case data of
        None \<Rightarrow>
          ([\<lparr> e_target = ToSocket (sock_id s), e_event = ''error'',
              e_payload = ErrorMessage ''Failed to send message'' \<rparr>], d)
      | Some dt \<Rightarrow>
         (if MessageCreate \<in> faults
          then ([\<lparr> e_target = ToSocket (sock_id s), e_event = ''error'',
                    e_payload = ErrorMessage ''Failed to send message'' \<rparr>], d)
          else
           (let msg = storedMessage s dt newId
            in ([\<lparr> e_target = ToRoom (identityRoom (md_receiverId dt)),
                    e_event = ''new_message'',
                    e_payload = NewMessage msg (user_findUnique d (user_id (sock_user s))) \<rparr>,
                 \<lparr> e_target = ToSocket (sock_id s), e_event = ''message_sent'',
                    e_payload = MessageSent (m_id msg) \<rparr>],
                d\<lparr>messages := messages d @ [msg]\<rparr>))))"

section \<open>Sample store\<close>

definition alice :: user where
  "alice = \<lparr> user_id = ''u_alice'', username = ''alice'',
             firstName = ''Alice'', lastName = ''Ames'' \<rparr>"

definition bob :: user where
  "bob = \<lparr> user_id = ''u_bob'', username = ''bob'',
           firstName = ''Bob'', lastName = ''Birch'' \<rparr>"

definition carol :: user where
  "carol = \<lparr> user_id = ''u_carol'', username = ''carol'',
             firstName = ''Carol'', lastName = ''Cole'' \<rparr>"

definition mkPost :: "ident \<Rightarrow> ident \<Rightarrow> visibility \<Rightarrow> int \<Rightarrow> post" where
  "mkPost pid author v t =
     \<lparr> p_id = pid, p_authorId = author, p_content = Some ''hello'', p_visibility = v,
       p_location = None, p_tags = [], p_createdAt = t \<rparr>"

definition mkComment :: "ident \<Rightarrow> ident \<Rightarrow> ident \<Rightarrow> ident option \<Rightarrow> int \<Rightarrow> comment" where
  "mkComment cid author pid parent t =
     \<lparr> c_id = cid, c_content = ''note'', c_userId = author, c_postId = pid,
       c_parentId = parent, c_createdAt = t \<rparr>"

text \<open>
  Bob owns a FRIENDS, a PRIVATE and a PUBLIC post; Alice follows Bob; Carol follows
  nobody. Bob has commented on his private post and replied to that comment.
\<close>

definition sampleDb :: db where
  "sampleDb =
     \<lparr> users = [alice, bob, carol],
       posts = [mkPost ''p_friends'' ''u_bob'' FRIENDS 100,
                mkPost ''p_private'' ''u_bob'' PRIVATE 200,
                mkPost ''p_public'' ''u_bob'' PUBLIC 300],
       comments = [mkComment ''c1'' ''u_bob'' ''p_private'' None 210,
                   mkComment ''c2'' ''u_bob'' ''p_private'' (Some ''c1'') 220],
       likes = [],
       follows = [\<lparr>followerId = ''u_alice'', followingId = ''u_bob''\<rparr>],
       notifications = [],
       messages = [] \<rparr>"

text \<open>Three posts by Alice written at the same instant, stored in the order 2, 1, 3.\<close>

definition tieDb :: db where
  "tieDb =
     \<lparr> users = [alice],
       posts = [mkPost ''p2'' ''u_alice'' PUBLIC 500,
                mkPost ''p1'' ''u_alice'' PUBLIC 500,
                mkPost ''p3'' ''u_alice'' PUBLIC 500],
       comments = [], likes = [], follows = [], notifications = [], messages = [] \<rparr>"

text \<open>
  A store whose post and comment carry identifiers of the shape the routes accept:
  Bob's private post with one comment by Bob.
\<close>

definition writeDb :: db where
  "writeDb =
     \<lparr> users = [alice, bob, carol],
       posts = [mkPost ''cpostbob1'' ''u_bob'' PRIVATE 200],
       comments = [mkComment ''ccomment1'' ''u_bob'' ''cpostbob1'' None 210],
       likes = [], follows = [], notifications = [], messages = [] \<rparr>"

section \<open>Vocabulary of the specification\<close>

text \<open>
  The feed order as the specification words it: newest first, equal timestamps in
  the order of the post ids (ascending or descending; the specification names the
  key, not the direction).
\<close>

definition spec_newestFirstTiesById :: "bool \<Rightarrow> post list \<Rightarrow> bool" where
  "spec_newestFirstTiesById ascending ps =
     sorted_wrt (\<lambda>a b. p_createdAt b < p_createdAt a
                      \<or> (p_createdAt a = p_createdAt b
                          \<and> (if ascending then p_id a < p_id b else p_id b < p_id a))) ps"

text \<open>The post rows of a feed reply, in the order returned.\<close>

definition feedRows :: "failure + feed_page reply \<Rightarrow> post list option" where
  "feedRows r =
     (case r of Inl f \<Rightarrow> None | Inr x \<Rightarrow> Some (map pv_post (fp_posts (r_data x))))"

text \<open>The store calls each handler can make.\<close>

definition likeCalls :: "store_op set" where
  "likeCalls = {PostFindUnique, LikeFindUnique, LikeCreate, LikeDelete, NotificationCreate}"

definition followCalls :: "store_op set" where
  "followCalls = {UserFindUnique, FollowFindUnique, FollowCreate}"

definition commentCalls :: "store_op set" where
  "commentCalls = {PostFindUnique, FollowFindUnique, CommentFindUnique}"

section \<open>Auxiliary facts\<close>

lemmas sample_defs = sampleDb_def alice_def bob_def carol_def mkPost_def mkComment_def

lemma sorted_wrt_paginate:
  assumes "paginate skip tk xs = Some ys" and "sorted_wrt P xs"
  shows "sorted_wrt P ys"
proof (cases "0 \<le> tk")
  case True
  with assms show ?thesis
    by (auto simp: paginate_def sorted_wrt_take sorted_wrt_drop split: if_splits)
next
  case False
  from assms(2) have "sorted_wrt (\<lambda>a b. P b a) (rev xs)"
    by (simp add: sorted_wrt_rev)
  then have "sorted_wrt (\<lambda>a b. P b a) (take (nat (- tk)) (drop (nat skip) (rev xs)))"
    by (simp add: sorted_wrt_take sorted_wrt_drop)
  then have "sorted_wrt P (rev (take (nat (- tk)) (drop (nat skip) (rev xs))))"
    by (simp add: sorted_wrt_rev)
  with assms(1) False show ?thesis
    by (auto simp: paginate_def split: if_splits)
qed

lemma newestFirst_sorted:
  "sorted_wrt (\<lambda>a b. p_createdAt b \<le> p_createdAt a) (newestFirst ps)"
proof -
  have "sorted (map (\<lambda>p. - p_createdAt p) (newestFirst ps))"
    by (simp add: newestFirst_def)
  then show ?thesis
    by (simp add: sorted_map sorted_wrt_iff_nth_less)
qed

lemma paginate_Some: "0 \<le> skip \<Longrightarrow> \<exists>ys. paginate skip tk xs = Some ys"
  by (simp add: paginate_def)

lemma getFeed_rows:
  assumes "feedRows (getFeed faults d u q) = Some ps"
  shows "paginate ((pageOf q - 1) * limitOr 10 q) (limitOr 10 q)
           (newestFirst (filter (feedWhere (followingIdsOf d (user_id u)) (user_id u)) (posts d)))
         = Some ps"
  using assms
  by (auto simp: getFeed_def feedRows_def Let_def comp_def split: if_splits option.splits)

section \<open>Reading a post\<close>



text \<open>
  C2. A post that does not exist gives 404 whoever asks. A PRIVATE post is returned
  to its author only; every other viewer, the anonymous one included, gets 403
  ``Access denied'', not 404.
\<close>

theorem getPostById_private:
  assumes "PostFindUnique \<notin> faults"
  shows "(post_findUnique d pid = None \<longrightarrow>
            getPostById faults d reqUser pid =
              Inl (Failure 404 ''Post not found'' ''The requested post does not exist''))
       \<and> (post_findUnique d pid = Some p \<and> p_visibility p = PRIVATE \<longrightarrow>
            getPostById faults d reqUser pid =
              (if map_option user_id reqUser = Some (p_authorId p)
               then Inr (Reply 200 ''Post retrieved successfully''
                           (postData d (map_option user_id reqUser) p))
               else Inl (Failure 403 ''Access denied''
                           ''You do not have permission to view this post'')))"
  using assms
  by (cases reqUser) (auto simp: getPostById_def Let_def)

theorem getPostById_private_witness:
  "PostFindUnique \<notin> ({} :: store_op set)
   \<and> post_findUnique sampleDb ''p_none'' = None
   \<and> getPostById {} sampleDb (Some bob) ''p_none'' =
       Inl (Failure 404 ''Post not found'' ''The requested post does not exist'')
   \<and> post_findUnique sampleDb ''p_private'' = Some (mkPost ''p_private'' ''u_bob'' PRIVATE 200)
   \<and> p_visibility (mkPost ''p_private'' ''u_bob'' PRIVATE 200) = PRIVATE
   \<and> getPostById {} sampleDb (Some bob) ''p_private'' =
       Inr (Reply 200 ''Post retrieved successfully''
             \<lparr> pv_post = mkPost ''p_private'' ''u_bob'' PRIVATE 200, pv_isLiked = False \<rparr>)
   \<and> getPostById {} sampleDb (Some alice) ''p_private'' =
       Inl (Failure 403 ''Access denied'' ''You do not have permission to view this post'')
   \<and> getPostById {} sampleDb None ''p_private'' =
       Inl (Failure 403 ''Access denied'' ''You do not have permission to view this post'')"
  using getPostById_private [where faults="{}" and d=sampleDb and pid="''p_none''"
          and p="mkPost ''p_private'' ''u_bob'' PRIVATE 200" and reqUser="Some bob"]
    getPostById_private [where faults="{}" and d=sampleDb and pid="''p_private''"
          and p="mkPost ''p_private'' ''u_bob'' PRIVATE 200" and reqUser="Some bob"]
    getPostById_private [where faults="{}" and d=sampleDb and pid="''p_private''"
          and p="mkPost ''p_private'' ''u_bob'' PRIVATE 200" and reqUser="Some alice"]
    getPostById_private [where faults="{}" and d=sampleDb and pid="''p_private''"
          and p="mkPost ''p_private'' ''u_bob'' PRIVATE 200" and reqUser="None"]
  by (simp add: sample_defs post_findUnique_def postData_def like_findUnique_def)

section \<open>The feed\<close>

text \<open>
  C4, as the specification states it, fails: the query orders by \<open>createdAt\<close> alone.
  Three posts with one timestamp, stored in the order 2, 1, 3, come back in that
  order, which is sorted by id in neither direction.
\<close>

theorem getFeed_tie_counterexample:
  "feedRows (getFeed {} tieDb alice \<lparr>q_page = None, q_limit = None\<rparr>) =
     Some [mkPost ''p2'' ''u_alice'' PUBLIC 500, mkPost ''p1'' ''u_alice'' PUBLIC 500,
           mkPost ''p3'' ''u_alice'' PUBLIC 500]
   \<and> \<not> spec_newestFirstTiesById True
         [mkPost ''p2'' ''u_alice'' PUBLIC 500, mkPost ''p1'' ''u_alice'' PUBLIC 500,
          mkPost ''p3'' ''u_alice'' PUBLIC 500]
   \<and> \<not> spec_newestFirstTiesById False
         [mkPost ''p2'' ''u_alice'' PUBLIC 500, mkPost ''p1'' ''u_alice'' PUBLIC 500,
          mkPost ''p3'' ''u_alice'' PUBLIC 500]"
  by (simp add: tieDb_def alice_def mkPost_def getFeed_def feedRows_def pageOf_def
        limitOr_def paginate_def newestFirst_def followingIdsOf_def feedWhere_def
        like_findUnique_def spec_newestFirstTiesById_def less_char_def Let_def)

text \<open>
  C4, amended. Every page the feed returns is ordered by creation time, newest
  first; nothing is promised about the order of posts with equal timestamps. A page
  is returned whenever the store calls do not reject and the offset is not negative.
\<close>

theorem getFeed_newest_first:
  "(\<forall>ps. feedRows (getFeed faults d u q) = Some ps \<longrightarrow>
          sorted_wrt (\<lambda>a b. p_createdAt b \<le> p_createdAt a) ps)
   \<and> (FollowFindMany \<notin> faults \<and> PostFindMany \<notin> faults
        \<and> 0 \<le> (pageOf q - 1) * limitOr 10 q \<longrightarrow>
      (\<exists>ps. feedRows (getFeed faults d u q) = Some ps))"
proof (intro conjI allI impI)
  fix ps assume "feedRows (getFeed faults d u q) = Some ps"
  from getFeed_rows[OF this] newestFirst_sorted
  show "sorted_wrt (\<lambda>a b. p_createdAt b \<le> p_createdAt a) ps"
    by (rule sorted_wrt_paginate)
next
  assume a: "FollowFindMany \<notin> faults \<and> PostFindMany \<notin> faults
        \<and> 0 \<le> (pageOf q - 1) * limitOr 10 q"
  then obtain ys where "paginate ((pageOf q - 1) * limitOr 10 q) (limitOr 10 q)
           (newestFirst (filter (feedWhere (followingIdsOf d (user_id u)) (user_id u)) (posts d)))
         = Some ys" using paginate_Some by blast
  with a show "\<exists>ps. feedRows (getFeed faults d u q) = Some ps"
    by (simp add: getFeed_def feedRows_def Let_def)
qed

theorem getFeed_newest_first_witness:
  "FollowFindMany \<notin> ({} :: store_op set) \<and> PostFindMany \<notin> ({} :: store_op set)
   \<and> 0 \<le> (pageOf \<lparr>q_page = Some 1, q_limit = Some 3\<rparr> - 1)
            * limitOr 10 \<lparr>q_page = Some 1, q_limit = Some 3\<rparr>
   \<and> feedRows (getFeed {} sampleDb alice \<lparr>q_page = Some 1, q_limit = Some 3\<rparr>) =
       Some [mkPost ''p_public'' ''u_bob'' PUBLIC 300, mkPost ''p_friends'' ''u_bob'' FRIENDS 100]
   \<and> sorted_wrt (\<lambda>a b. p_createdAt b \<le> p_createdAt a)
       [mkPost ''p_public'' ''u_bob'' PUBLIC 300, mkPost ''p_friends'' ''u_bob'' FRIENDS 100]"
  using getFeed_newest_first [where faults="{}" and d=sampleDb and u=alice
          and q="\<lparr>q_page = Some 1, q_limit = Some 3\<rparr>"]
  by (simp add: sample_defs getFeed_def feedRows_def pageOf_def limitOr_def paginate_def
        newestFirst_def followingIdsOf_def feedWhere_def like_findUnique_def Let_def)



section \<open>Likes\<close>

lemma find_snoc_absent: "find P xs = None \<Longrightarrow> P x \<Longrightarrow> find P (xs @ [x]) = Some x"
  by (induction xs) (auto split: if_splits)

lemma delete_first_snoc_absent: "find P xs = None \<Longrightarrow> P x \<Longrightarrow> delete_first P (xs @ [x]) = xs"
  by (induction xs) (auto split: if_splits)

lemma filter_Nil_find: "filter P xs = [] \<longleftrightarrow> find P xs = None"
  by (induction xs) auto

lemma likePost_absent:
  assumes "post_findUnique d pid = Some p" and "like_findUnique d (user_id u) pid = None"
    and "faults \<inter> likeCalls = {}"
  shows "likePost faults d u pid =
    (Inr (Reply 200 ''Post liked successfully'' True),
     d\<lparr>likes := likes d @ [\<lparr>l_userId = user_id u, l_postId = pid\<rparr>],
       notifications := (if p_authorId p \<noteq> user_id u
                         then notifications d @
                              [\<lparr>n_type = LIKE,
                                n_message = firstName u @ '' '' @ lastName u @ '' liked your post'',
                                n_recipientId = p_authorId p, n_triggererId = user_id u,
                                n_relatedId = Some pid\<rparr>]
                         else notifications d)\<rparr>)"
  using assms by (auto simp: likePost_def likeCalls_def Let_def)

lemma likePost_present:
  assumes "post_findUnique d pid = Some p" and "like_findUnique d (user_id u) pid = Some l"
    and "faults \<inter> likeCalls = {}"
  shows "likePost faults d u pid =
    (Inr (Reply 200 ''Post unliked successfully'' False),
     d\<lparr>likes := delete_first (\<lambda>l. l_userId l = user_id u \<and> l_postId l = pid) (likes d)\<rparr>)"
  using assms by (auto simp: likePost_def likeCalls_def Let_def)

lemma likeTimes_state:
  assumes "post_findUnique d pid = Some p" and "like_findUnique d (user_id u) pid = None"
    and "faults \<inter> likeCalls = {}"
  shows "posts (snd (likeTimes n faults d u pid)) = posts d
       \<and> likes (snd (likeTimes n faults d u pid)) =
           (if odd n then likes d @ [\<lparr>l_userId = user_id u, l_postId = pid\<rparr>] else likes d)
       \<and> fst (likeTimes (Suc n) faults d u pid) =
           fst (likeTimes n faults d u pid) @
             [Inr (Reply 200 (if even n then ''Post liked successfully''
                              else ''Post unliked successfully'') (even n))]
       \<and> (odd n \<longrightarrow> notifications (snd (likeTimes (Suc n) faults d u pid)) =
                     notifications (snd (likeTimes n faults d u pid)))"
proof (induction n)
  case 0
  show ?case using likePost_absent[OF assms]
    by (simp)
next
  case (Suc n)
  obtain rs d1 where s1: "likeTimes n faults d u pid = (rs, d1)" by (cases "likeTimes n faults d u pid")
  obtain r d2 where s2: "likePost faults d1 u pid = (r, d2)" by (cases "likePost faults d1 u pid")
  from Suc s1 have p1: "posts d1 = posts d"
    and l1: "likes d1 = (if odd n then likes d @ [\<lparr>l_userId = user_id u, l_postId = pid\<rparr>] else likes d)"
    by simp_all
  have pf: "post_findUnique d1 pid = Some p" using assms(1) p1 by (simp add: post_findUnique_def)
  show ?case
  proof (cases "odd n")
    case True
    have "like_findUnique d1 (user_id u) pid = Some \<lparr>l_userId = user_id u, l_postId = pid\<rparr>"
      using l1 True assms(2) by (simp add: like_findUnique_def find_snoc_absent)
    from likePost_present[OF pf this assms(3)] s2
    have d2: "d2 = d1\<lparr>likes := delete_first (\<lambda>l. l_userId l = user_id u \<and> l_postId l = pid) (likes d1)\<rparr>"
      and r: "r = Inr (Reply 200 ''Post unliked successfully'' False)" by simp_all
    have l2: "likes d2 = likes d" using d2 l1 True assms(2)
      by (simp add: like_findUnique_def delete_first_snoc_absent)
    have p2: "posts d2 = posts d" using d2 p1 by simp
    have f2: "post_findUnique d2 pid = Some p" using assms(1) p2 by (simp add: post_findUnique_def)
    have a2: "like_findUnique d2 (user_id u) pid = None" using l2 assms(2) by (simp add: like_findUnique_def)
    show ?thesis using True s1 s2 l2 p2 r likePost_absent[OF f2 a2 assms(3)]
      by (simp)
  next
    case False
    have a1: "like_findUnique d1 (user_id u) pid = None" using l1 False assms(2) by (simp add: like_findUnique_def)
    from likePost_absent[OF pf a1 assms(3)] s2
    have l2: "likes d2 = likes d @ [\<lparr>l_userId = user_id u, l_postId = pid\<rparr>]"
      and p2: "posts d2 = posts d"
      and r: "r = Inr (Reply 200 ''Post liked successfully'' True)" using l1 False p1 by auto
    have f2: "post_findUnique d2 pid = Some p" using assms(1) p2 by (simp add: post_findUnique_def)
    have a2: "like_findUnique d2 (user_id u) pid = Some \<lparr>l_userId = user_id u, l_postId = pid\<rparr>"
      using l2 assms(2) by (simp add: like_findUnique_def find_snoc_absent)
    show ?thesis using False s1 s2 l2 p2 r likePost_present[OF f2 a2 assms(3)]
      by (simp)
  qed
qed

text \<open>
  C7. From a state without the like row of user \<open>u\<close> on an existing post, after
  \<open>n\<close> calls of \<open>likePost\<close> there is one such row when \<open>n\<close> is odd and none when
  \<open>n\<close> is even; every call answers \<open>isLiked\<close> equal to the presence of the row
  after it; and a call that follows an odd number of calls restores the like table
  and adds no notification.
\<close>

theorem likePost_toggle:
  assumes "post_findUnique d pid = Some p" and "likeRows d (user_id u) pid = []"
    and "faults \<inter> likeCalls = {}"
  shows "length (likeRows (snd (likeTimes n faults d u pid)) (user_id u) pid)
           = (if odd n then 1 else 0)
       \<and> (\<exists>msg. fst (likePost faults (snd (likeTimes n faults d u pid)) u pid) =
             Inr (Reply 200 msg
                   (likeRows (snd (likeTimes (Suc n) faults d u pid)) (user_id u) pid \<noteq> [])))
       \<and> (odd n \<longrightarrow>
             likes (snd (likeTimes (Suc n) faults d u pid)) = likes d
           \<and> notifications (snd (likeTimes (Suc n) faults d u pid)) =
               notifications (snd (likeTimes n faults d u pid)))"
proof -
  have a: "like_findUnique d (user_id u) pid = None"
    using assms(2) by (simp add: likeRows_def like_findUnique_def filter_Nil_find)
  note st = likeTimes_state[OF assms(1) a assms(3)]
  have rows: "likeRows (snd (likeTimes k faults d u pid)) (user_id u) pid =
        (if odd k then [\<lparr>l_userId = user_id u, l_postId = pid\<rparr>] else [])" for k
    using st[of k] assms(2) by (simp add: likeRows_def)
  have last: "fst (likePost faults (snd (likeTimes n faults d u pid)) u pid) =
      Inr (Reply 200 (if even n then ''Post liked successfully''
                              else ''Post unliked successfully'') (even n))"
    using st[of n] by (simp split: prod.splits)
  show ?thesis
  proof (intro conjI impI)
    show "length (likeRows (snd (likeTimes n faults d u pid)) (user_id u) pid)
           = (if odd n then 1 else 0)" by (simp add: rows)
    show "\<exists>msg. fst (likePost faults (snd (likeTimes n faults d u pid)) u pid) =
             Inr (Reply 200 msg
                   (likeRows (snd (likeTimes (Suc n) faults d u pid)) (user_id u) pid \<noteq> []))"
      unfolding last rows by auto
    show "likes (snd (likeTimes (Suc n) faults d u pid)) = likes d" if "odd n"
      using st[of "Suc n"] that by simp
    show "notifications (snd (likeTimes (Suc n) faults d u pid)) =
               notifications (snd (likeTimes n faults d u pid))" if "odd n"
      using st[of n] that by simp
  qed
qed

theorem likePost_toggle_witness:
  "post_findUnique sampleDb ''p_public'' = Some (mkPost ''p_public'' ''u_bob'' PUBLIC 300)
   \<and> likeRows sampleDb (user_id alice) ''p_public'' = []
   \<and> {} \<inter> likeCalls = {}
   \<and> length (likeRows (snd (likeTimes (Suc 0) {} sampleDb alice ''p_public''))
               (user_id alice) ''p_public'') = 1
   \<and> fst (likePost {} (snd (likeTimes (Suc 0) {} sampleDb alice ''p_public'')) alice ''p_public'')
       = Inr (Reply 200 ''Post unliked successfully'' False)
   \<and> likes (snd (likeTimes (Suc (Suc 0)) {} sampleDb alice ''p_public'')) = likes sampleDb
   \<and> notifications (snd (likeTimes (Suc (Suc 0)) {} sampleDb alice ''p_public'')) =
       [\<lparr>n_type = LIKE, n_message = ''Alice Ames liked your post'',
         n_recipientId = ''u_bob'', n_triggererId = ''u_alice'',
         n_relatedId = Some ''p_public''\<rparr>]"
  using likePost_toggle [where d=sampleDb and pid="''p_public''" and u=alice and faults="{}"
          and p="mkPost ''p_public'' ''u_bob'' PUBLIC 300" and n="Suc 0"]
  by (simp add: sample_defs post_findUnique_def like_findUnique_def likeRows_def likePost_def
        Let_def)

section \<open>Following\<close>

lemma find_Some_in: "find P xs = Some x \<Longrightarrow> x \<in> set xs \<and> P x"
  by (induction xs) (auto split: if_splits)

text \<open>
  C6. \<open>followUser\<close> by a registered user \<open>u\<close> on \<open>v\<close>: 400 ``Invalid action'' when
  \<open>u = v\<close>; 404 when \<open>v\<close> is no user; 409 when the edge \<open>(u, v)\<close> is already there;
  otherwise the edge \<open>(u, v)\<close> is appended and a FOLLOW notification with recipient
  \<open>v\<close> and triggerer \<open>u\<close> is written. When the notification write is rejected the
  edge stays in the store. The follow table is assumed to hold no self-loop and no
  edge to a missing user, as the handler and the store's foreign keys keep it.
\<close>

theorem followUser_contract:
  assumes "user_findUnique d (user_id u) \<noteq> None"
    and "\<forall>f \<in> set (follows d).
           followerId f \<noteq> followingId f \<and> user_findUnique d (followingId f) \<noteq> None"
    and "faults \<inter> followCalls = {}"
  shows "(user_id u = v \<longrightarrow>
            followUser faults d u v =
              (Inl (Failure 400 ''Invalid action'' ''You cannot follow yourself''), d))
       \<and> (user_findUnique d v = None \<longrightarrow>
            followUser faults d u v =
              (Inl (Failure 404 ''User not found''
                      ''The user you are trying to follow does not exist''), d))
       \<and> (follow_findUnique d (user_id u) v \<noteq> None \<longrightarrow>
            followUser faults d u v =
              (Inl (Failure 409 ''Already following''
                      ''You are already following this user''), d))
       \<and> (user_id u \<noteq> v \<and> user_findUnique d v \<noteq> None
           \<and> follow_findUnique d (user_id u) v = None \<longrightarrow>
            followUser faults d u v =
              (if NotificationCreate \<in> faults
               then (Inl (internal ''Failed to follow user''),
                     d\<lparr>follows := follows d @ [\<lparr>followerId = user_id u, followingId = v\<rparr>]\<rparr>)
               else (Inr (Reply 200 ''Successfully followed user'' ()),
                     d\<lparr>follows := follows d @ [\<lparr>followerId = user_id u, followingId = v\<rparr>],
                       notifications := notifications d @
                         [\<lparr>n_type = FOLLOW,
                           n_message = firstName u @ '' '' @ lastName u @
                                       '' started following you'',
                           n_recipientId = v, n_triggererId = user_id u,
                           n_relatedId = None\<rparr>]\<rparr>)))"
proof (intro conjI impI)
  show "followUser faults d u v =
          (Inl (Failure 400 ''Invalid action'' ''You cannot follow yourself''), d)"
    if "user_id u = v"
    using that by (simp add: followUser_def)
next
  assume nf: "user_findUnique d v = None"
  with assms(1) have "user_id u \<noteq> v" by auto
  with nf assms(3) show "followUser faults d u v =
              (Inl (Failure 404 ''User not found''
                      ''The user you are trying to follow does not exist''), d)"
    by (auto simp: followUser_def followCalls_def)
next
  assume "follow_findUnique d (user_id u) v \<noteq> None"
  then obtain f where f: "follow_findUnique d (user_id u) v = Some f" by auto
  then have "f \<in> set (follows d)" and "followerId f = user_id u" and "followingId f = v"
    using find_Some_in[of _ "follows d" f] by (auto simp: follow_findUnique_def)
  with assms(2) have "user_id u \<noteq> v" and "user_findUnique d v \<noteq> None" by auto
  with f assms(3) show "followUser faults d u v =
              (Inl (Failure 409 ''Already following''
                      ''You are already following this user''), d)"
    by (auto simp: followUser_def followCalls_def)
next
  assume "user_id u \<noteq> v \<and> user_findUnique d v \<noteq> None
           \<and> follow_findUnique d (user_id u) v = None"
  with assms(3) show "followUser faults d u v =
              (if NotificationCreate \<in> faults
               then (Inl (internal ''Failed to follow user''),
                     d\<lparr>follows := follows d @ [\<lparr>followerId = user_id u, followingId = v\<rparr>]\<rparr>)
               else (Inr (Reply 200 ''Successfully followed user'' ()),
                     d\<lparr>follows := follows d @ [\<lparr>followerId = user_id u, followingId = v\<rparr>],
                       notifications := notifications d @
                         [\<lparr>n_type = FOLLOW,
                           n_message = firstName u @ '' '' @ lastName u @
                                       '' started following you'',
                           n_recipientId = v, n_triggererId = user_id u,
                           n_relatedId = None\<rparr>]\<rparr>))"
    by (auto simp: followUser_def followCalls_def Let_def)
qed

theorem followUser_contract_witness:
  "user_findUnique sampleDb (user_id carol) \<noteq> None
   \<and> user_findUnique sampleDb (user_id alice) \<noteq> None
   \<and> follows sampleDb = [\<lparr>followerId = ''u_alice'', followingId = ''u_bob''\<rparr>]
   \<and> ''u_alice'' \<noteq> ''u_bob'' \<and> user_findUnique sampleDb ''u_bob'' \<noteq> None
   \<and> {} \<inter> followCalls = {}
   \<and> {NotificationCreate} \<inter> followCalls = {}
   \<and> followUser {} sampleDb carol ''u_carol'' =
       (Inl (Failure 400 ''Invalid action'' ''You cannot follow yourself''), sampleDb)
   \<and> followUser {} sampleDb carol ''u_nobody'' =
       (Inl (Failure 404 ''User not found''
               ''The user you are trying to follow does not exist''), sampleDb)
   \<and> followUser {} sampleDb alice ''u_bob'' =
       (Inl (Failure 409 ''Already following'' ''You are already following this user''),
        sampleDb)
   \<and> followUser {} sampleDb carol ''u_bob'' =
       (Inr (Reply 200 ''Successfully followed user'' ()),
        sampleDb\<lparr>follows := [\<lparr>followerId = ''u_alice'', followingId = ''u_bob''\<rparr>,
                             \<lparr>followerId = ''u_carol'', followingId = ''u_bob''\<rparr>],
                 notifications := [\<lparr>n_type = FOLLOW,
                                    n_message = ''Carol Cole started following you'',
                                    n_recipientId = ''u_bob'', n_triggererId = ''u_carol'',
                                    n_relatedId = None\<rparr>]\<rparr>)
   \<and> followUser {NotificationCreate} sampleDb carol ''u_bob'' =
       (Inl (internal ''Failed to follow user''),
        sampleDb\<lparr>follows := [\<lparr>followerId = ''u_alice'', followingId = ''u_bob''\<rparr>,
                             \<lparr>followerId = ''u_carol'', followingId = ''u_bob''\<rparr>]\<rparr>)"
  using followUser_contract [where d=sampleDb and u=carol and v="''u_carol''" and faults="{}"]
    followUser_contract [where d=sampleDb and u=carol and v="''u_nobody''" and faults="{}"]
    followUser_contract [where d=sampleDb and u=alice and v="''u_bob''" and faults="{}"]
    followUser_contract [where d=sampleDb and u=carol and v="''u_bob''" and faults="{}"]
    followUser_contract [where d=sampleDb and u=carol and v="''u_bob''"
       and faults="{NotificationCreate}"]
  by (simp add: sample_defs user_findUnique_def follow_findUnique_def followCalls_def)

section \<open>Real-time messaging\<close>

lemma send_message_rejected:
  assumes "data = None \<or> MessageCreate \<in> faults"
  shows "send_message faults d s data newId =
          ([\<lparr> e_target = ToSocket (sock_id s), e_event = ''error'',
              e_payload = ErrorMessage ''Failed to send message'' \<rparr>], d)"
  using assms by (auto simp: send_message_def split: option.splits)

lemma send_message_accepted:
  assumes "data = Some dt" and "MessageCreate \<notin> faults"
  shows "send_message faults d s data newId =
          ([\<lparr> e_target = ToRoom (identityRoom (md_receiverId dt)),
              e_event = ''new_message'',
              e_payload = NewMessage (storedMessage s dt newId)
                            (user_findUnique d (user_id (sock_user s))) \<rparr>,
            \<lparr> e_target = ToSocket (sock_id s), e_event = ''message_sent'',
              e_payload = MessageSent newId \<rparr>],
           d\<lparr>messages := messages d @ [storedMessage s dt newId]\<rparr>)"
  using assms by (simp add: send_message_def storedMessage_def Let_def)

text \<open>
  C8. For every \<open>send_message\<close> event: a \<open>new_message\<close> event is emitted exactly
  when a message row was stored, which happens exactly when the event carries a
  payload and the store accepts the row. Then the stored row (sender the socket's
  user, receiver as requested) is what \<open>new_message\<close> carries to the room of the
  receiver, and \<open>message_sent\<close> carries the same id to the sending socket alone.
  Otherwise the store is unchanged and the only event is \<open>error\<close>, to the sending
  socket alone.
\<close>

theorem send_message_contract:
  assumes "send_message faults d s data newId = (es, d')"
  shows "((\<exists>e \<in> set es. e_event e = ''new_message'') \<longleftrightarrow> messages d' \<noteq> messages d)
       \<and> (messages d' \<noteq> messages d \<longleftrightarrow> data \<noteq> None \<and> MessageCreate \<notin> faults)
       \<and> (messages d' = messages d \<longrightarrow>
             d' = d \<and>
             es = [\<lparr> e_target = ToSocket (sock_id s), e_event = ''error'',
                     e_payload = ErrorMessage ''Failed to send message'' \<rparr>])
       \<and> (\<forall>dt. data = Some dt \<and> messages d' \<noteq> messages d \<longrightarrow>
             d' = d\<lparr>messages := messages d @ [storedMessage s dt newId]\<rparr>
             \<and> m_senderId (storedMessage s dt newId) = user_id (sock_user s)
             \<and> m_receiverId (storedMessage s dt newId) = md_receiverId dt
             \<and> map (\<lambda>e. (e_event e, e_payload e, recipients rs e)) es =
                 [(''new_message'',
                   NewMessage (storedMessage s dt newId)
                     (user_findUnique d (user_id (sock_user s))),
                   rs (identityRoom (md_receiverId dt))),
                  (''message_sent'', MessageSent (m_id (storedMessage s dt newId)),
                   {sock_id s})])
       \<and> (\<forall>e \<in> set es. e_event e \<noteq> ''new_message'' \<longrightarrow> recipients rs e = {sock_id s})"
proof (cases "data = None \<or> MessageCreate \<in> faults")
  case True
  from send_message_rejected[OF True] assms
  have "es = [\<lparr> e_target = ToSocket (sock_id s), e_event = ''error'',
                e_payload = ErrorMessage ''Failed to send message'' \<rparr>]" and "d' = d"
    by simp_all
  with True show ?thesis by (auto simp: recipients_def)
next
  case False
  then obtain dt where dt: "data = Some dt" and ok: "MessageCreate \<notin> faults" by auto
  from send_message_accepted[OF dt ok] assms
  have es: "es = [\<lparr> e_target = ToRoom (identityRoom (md_receiverId dt)),
              e_event = ''new_message'',
              e_payload = NewMessage (storedMessage s dt newId)
                            (user_findUnique d (user_id (sock_user s))) \<rparr>,
            \<lparr> e_target = ToSocket (sock_id s), e_event = ''message_sent'',
              e_payload = MessageSent newId \<rparr>]"
    and d': "d' = d\<lparr>messages := messages d @ [storedMessage s dt newId]\<rparr>"
    by simp_all
  show ?thesis unfolding es d' using dt ok
    by (simp add: recipients_def storedMessage_def)
qed

theorem send_message_contract_witness:
  "send_message {} sampleDb \<lparr>sock_id = ''s1'', sock_user = alice\<rparr>
        (Some \<lparr>md_receiverId = ''u_bob'', md_content = ''hi'', md_mediaUrl = None,
               md_mediaType = None\<rparr>) ''m1''
      = ([\<lparr> e_target = ToRoom ''user_u_bob'', e_event = ''new_message'',
            e_payload = NewMessage \<lparr> m_id = ''m1'', m_content = ''hi'',
                 m_senderId = ''u_alice'', m_receiverId = ''u_bob'',
                 m_mediaUrl = None, m_mediaType = None \<rparr> (Some alice) \<rparr>,
          \<lparr> e_target = ToSocket ''s1'', e_event = ''message_sent'',
            e_payload = MessageSent ''m1'' \<rparr>],
         sampleDb\<lparr>messages := [\<lparr> m_id = ''m1'', m_content = ''hi'',
                 m_senderId = ''u_alice'', m_receiverId = ''u_bob'',
                 m_mediaUrl = None, m_mediaType = None \<rparr>]\<rparr>)
   \<and> map (\<lambda>e. (e_event e, recipients (on_connection (\<lambda>r. {}) \<lparr>sock_id = ''s2'', sock_user = bob\<rparr>) e))
        (fst (send_message {} sampleDb \<lparr>sock_id = ''s1'', sock_user = alice\<rparr>
        (Some \<lparr>md_receiverId = ''u_bob'', md_content = ''hi'', md_mediaUrl = None,
               md_mediaType = None\<rparr>) ''m1''))
      = [(''new_message'', {''s2''}), (''message_sent'', {''s1''})]
   \<and> send_message {MessageCreate} sampleDb \<lparr>sock_id = ''s1'', sock_user = alice\<rparr>
        (Some \<lparr>md_receiverId = ''u_bob'', md_content = ''hi'', md_mediaUrl = None,
               md_mediaType = None\<rparr>) ''m1''
      = ([\<lparr> e_target = ToSocket ''s1'', e_event = ''error'',
            e_payload = ErrorMessage ''Failed to send message'' \<rparr>], sampleDb)"
  using send_message_contract [where faults="{}" and d=sampleDb
      and s="\<lparr>sock_id = ''s1'', sock_user = alice\<rparr>"
      and data="Some \<lparr>md_receiverId = ''u_bob'', md_content = ''hi'', md_mediaUrl = None,
               md_mediaType = None\<rparr>" and newId="''m1''"
      and rs="on_connection (\<lambda>r. {}) \<lparr>sock_id = ''s2'', sock_user = bob\<rparr>"
      and es="fst (send_message {} sampleDb \<lparr>sock_id = ''s1'', sock_user = alice\<rparr>
        (Some \<lparr>md_receiverId = ''u_bob'', md_content = ''hi'', md_mediaUrl = None,
               md_mediaType = None\<rparr>) ''m1'')"
      and d'="snd (send_message {} sampleDb \<lparr>sock_id = ''s1'', sock_user = alice\<rparr>
        (Some \<lparr>md_receiverId = ''u_bob'', md_content = ''hi'', md_mediaUrl = None,
               md_mediaType = None\<rparr>) ''m1'')"]
    send_message_contract [where faults="{MessageCreate}" and d=sampleDb
      and s="\<lparr>sock_id = ''s1'', sock_user = alice\<rparr>"
      and data="Some \<lparr>md_receiverId = ''u_bob'', md_content = ''hi'', md_mediaUrl = None,
               md_mediaType = None\<rparr>" and newId="''m1''"
      and rs="on_connection (\<lambda>r. {}) \<lparr>sock_id = ''s2'', sock_user = bob\<rparr>"
      and es="fst (send_message {MessageCreate} sampleDb \<lparr>sock_id = ''s1'', sock_user = alice\<rparr>
        (Some \<lparr>md_receiverId = ''u_bob'', md_content = ''hi'', md_mediaUrl = None,
               md_mediaType = None\<rparr>) ''m1'')"
      and d'="snd (send_message {MessageCreate} sampleDb \<lparr>sock_id = ''s1'', sock_user = alice\<rparr>
        (Some \<lparr>md_receiverId = ''u_bob'', md_content = ''hi'', md_mediaUrl = None,
               md_mediaType = None\<rparr>) ''m1'')"]
  by (simp add: sample_defs send_message_def identityRoom_def on_connection_def
        recipients_def user_findUnique_def storedMessage_def Let_def)

section \<open>Writing posts and comments\<close>

lemma route_put_post_result:
  "route_put_post faults d u pid body =
     (Inl (if validPostBody body then internal ''Failed to update post''
           else validationFailed), d)"
  by (simp add: route_put_post_def schema_createPost_def updatePost_def)

lemma route_put_comment_result:
  "route_put_comment faults d u cid body = (Inl validationFailed, d)"
  by (simp add: route_put_comment_def schema_createComment_def)

lemma route_delete_post_result:
  assumes "isCuid pid" and "PostFindUnique \<notin> faults" and "PostDelete \<notin> faults"
  shows "route_delete_post faults d u pid =
     (case post_findUnique d pid of
        None \<Rightarrow> (Inl (Failure 404 ''Post not found'' ''The requested post does not exist''), d)
      | Some p \<Rightarrow>
          if p_authorId p = user_id u
          then (Inr (Reply 200 ''Post deleted successfully'' ()),
                d\<lparr>posts := delete_first (\<lambda>p. p_id p = pid) (posts d)\<rparr>)
          else (Inl (Failure 403 ''Access denied'' ''You can only delete your own posts''), d))"
  using assms
  by (simp add: route_delete_post_def schema_getPostById_def deletePost_def Let_def
        split: option.splits)

lemma route_delete_comment_result:
  assumes "isCuid cid" and "CommentFindUnique \<notin> faults" and "CommentDelete \<notin> faults"
  shows "route_delete_comment faults d u cid =
     (case comment_findUnique d cid of
        None \<Rightarrow> (Inl (Failure 404 ''Comment not found''
                        ''The requested comment does not exist''), d)
      | Some c \<Rightarrow>
          if c_userId c = user_id u
          then (Inr (Reply 200 ''Comment deleted successfully'' ()),
                d\<lparr>comments := delete_first (\<lambda>c. c_id c = cid) (comments d)\<rparr>)
          else (Inl (Failure 403 ''Access denied''
                       ''You can only delete your own comments''), d))"
  using assms
  by (simp add: route_delete_comment_def schema_getPostById_def deleteComment_def Let_def
        split: option.splits)

lemma updatePost_given_params:
  assumes "PostFindUnique \<notin> faults" and "PostUpdate \<notin> faults"
  shows "updatePost faults d u \<lparr> vd_body = Some body, vd_params = Some [(''id'', pid)] \<rparr> =
     (case post_findUnique d pid of
        None \<Rightarrow> (Inl (Failure 404 ''Post not found'' ''The requested post does not exist''), d)
      | Some p \<Rightarrow>
          if p_authorId p = user_id u
          then (Inr (Reply 200 ''Post updated successfully'' (updateData body p)),
                d\<lparr>posts := update_first (\<lambda>p. p_id p = pid) (updateData body) (posts d)\<rparr>)
          else (Inl (Failure 403 ''Access denied'' ''You can only edit your own posts''), d))"
  using assms by (simp add: updatePost_def Let_def split: option.splits)

lemma updateComment_given_params:
  assumes "CommentFindUnique \<notin> faults" and "CommentUpdate \<notin> faults"
  shows "updateComment faults d u \<lparr> vd_body = Some body, vd_params = Some [(''id'', cid)] \<rparr> =
     (case comment_findUnique d cid of
        None \<Rightarrow> (Inl (Failure 404 ''Comment not found''
                        ''The requested comment does not exist''), d)
      | Some c \<Rightarrow>
          if c_userId c = user_id u
          then (Inr (Reply 200 ''Comment updated successfully''
                       (c\<lparr>c_content := cb_content body\<rparr>)),
                d\<lparr>comments := update_first (\<lambda>c. c_id c = cid)
                                  (\<lambda>c. c\<lparr>c_content := cb_content body\<rparr>) (comments d)\<rparr>)
          else (Inl (Failure 403 ''Access denied''
                       ''You can only edit your own comments''), d))"
  using assms by (simp add: updateComment_def Let_def split: option.splits)

lemmas write_defs = writeDb_def alice_def bob_def carol_def mkPost_def mkComment_def

text \<open>
  C9 holds for the two handlers as written and for the two delete routes, but not
  for the program: both update routes validate the request with a schema that does
  not fit the handler. \<open>PUT /:id\<close> uses \<open>schemas.createPost\<close>, which names no
  \<open>params\<close>, so \<open>updatePost\<close> throws on reading the id and every request with a
  valid body is answered 500 (400 otherwise). \<open>PUT /comments/:id\<close> uses
  \<open>schemas.createComment\<close>, which requires \<open>params.postId\<close>, so every request is
  answered 400 and \<open>updateComment\<close> never runs. No update succeeds, for the author
  or anyone else, and the store is never changed. Given the validated id the two
  handlers do update the author's row, and the delete routes answer 200 to the
  author (removing the row) and 403 to another user.
\<close>

theorem update_routes_never_succeed:
  "route_put_post faults d u pid body =
     (Inl (if validPostBody body then internal ''Failed to update post''
           else validationFailed), d)
   \<and> route_put_comment faults d u cid cbody = (Inl validationFailed, d)
   \<and> route_put_post {} writeDb bob ''cpostbob1''
        \<lparr>up_content = Some ''edited'', up_visibility = None, up_location = None,
          up_tags = None\<rparr> =
       (Inl (Failure 500 ''Failed to update post'' ''Internal server error''), writeDb)
   \<and> route_put_comment {} writeDb bob ''ccomment1''
        \<lparr>cb_content = ''edited'', cb_parentId = None\<rparr> =
       (Inl (Failure 400 ''Validation failed'' ''Invalid request data''), writeDb)
   \<and> updatePost {} writeDb bob
        \<lparr> vd_body = Some \<lparr>up_content = Some ''edited'', up_visibility = Some PUBLIC,
                            up_location = None, up_tags = None\<rparr>,
          vd_params = Some [(''id'', ''cpostbob1'')] \<rparr> =
       (Inr (Reply 200 ''Post updated successfully''
              ((mkPost ''cpostbob1'' ''u_bob'' PUBLIC 200)\<lparr>p_content := Some ''edited''\<rparr>)),
        writeDb\<lparr>posts := [(mkPost ''cpostbob1'' ''u_bob'' PUBLIC 200)
                              \<lparr>p_content := Some ''edited''\<rparr>]\<rparr>)
   \<and> updateComment {} writeDb bob
        \<lparr> vd_body = Some \<lparr>cb_content = ''edited'', cb_parentId = None\<rparr>,
          vd_params = Some [(''id'', ''ccomment1'')] \<rparr> =
       (Inr (Reply 200 ''Comment updated successfully''
              ((mkComment ''ccomment1'' ''u_bob'' ''cpostbob1'' None 210)
                 \<lparr>c_content := ''edited''\<rparr>)),
        writeDb\<lparr>comments := [(mkComment ''ccomment1'' ''u_bob'' ''cpostbob1'' None 210)
                                 \<lparr>c_content := ''edited''\<rparr>]\<rparr>)
   \<and> route_delete_post {} writeDb bob ''cpostbob1'' =
       (Inr (Reply 200 ''Post deleted successfully'' ()), writeDb\<lparr>posts := []\<rparr>)
   \<and> route_delete_post {} writeDb alice ''cpostbob1'' =
       (Inl (Failure 403 ''Access denied'' ''You can only delete your own posts''), writeDb)
   \<and> route_delete_comment {} writeDb bob ''ccomment1'' =
       (Inr (Reply 200 ''Comment deleted successfully'' ()), writeDb\<lparr>comments := []\<rparr>)
   \<and> route_delete_comment {} writeDb alice ''ccomment1'' =
       (Inl (Failure 403 ''Access denied'' ''You can only delete your own comments''),
        writeDb)"
proof -
  have cu: "isCuid ''cpostbob1''" "isCuid ''ccomment1''"
    by (simp_all add: isCuid_def)
  have ne: "PostFindUnique \<notin> ({} :: store_op set)" "PostDelete \<notin> ({} :: store_op set)"
    "CommentFindUnique \<notin> ({} :: store_op set)" "CommentDelete \<notin> ({} :: store_op set)"
    "PostUpdate \<notin> ({} :: store_op set)" "CommentUpdate \<notin> ({} :: store_op set)"
    by simp_all
  note del_p = route_delete_post_result[OF cu(1) ne(1) ne(2)]
  note del_c = route_delete_comment_result[OF cu(2) ne(3) ne(4)]
  note upd_p = updatePost_given_params[OF ne(1) ne(5)]
  note upd_c = updateComment_given_params[OF ne(3) ne(6)]
  show ?thesis
    by (simp add: route_put_post_result route_put_comment_result del_p del_c upd_p upd_c
          write_defs post_findUnique_def comment_findUnique_def validPostBody_def
          internal_def validationFailed_def updateData_def)
qed

section \<open>Replying to a comment\<close>

text \<open>
  C10, as stated, fails: the post's access check comes before the parent lookup.
  Carol replies to a comment id that does not exist, on Bob's private post; the
  answer is 403, not 404.
\<close>

theorem createComment_parent_counterexample:
  "comment_findUnique sampleDb ''c_missing'' = None
   \<and> createComment {} sampleDb carol ''p_private''
        \<lparr>cb_content = ''hi'', cb_parentId = Some ''c_missing''\<rparr> ''c9'' 999 =
       (Inl (Failure 403 ''Access denied'' ''You cannot comment on this private post''),
        sampleDb)"
  by (simp add: sample_defs createComment_def post_findUnique_def comment_findUnique_def
        Let_def)

text \<open>
  C10, amended. For a request with a non-empty \<open>parentId\<close>: a missing post gives
  404; a PRIVATE post of another author, and a FRIENDS post of an author the requester
  does not follow, give 403 whatever the parent is; on a post that exists and that
  the requester may read, the request gives 404
  ``Parent comment not found'' unless a comment with that id exists on the same
  post; and whenever a comment is created, or the reply is a success, the parent
  exists and belongs to the post of the request.
\<close>

theorem createComment_parent:
  assumes "cb_parentId body = Some pc" and "pc \<noteq> []"
  shows
   "(faults \<inter> commentCalls = {} \<and> post_findUnique d postId = None \<longrightarrow>
       createComment faults d u postId body newId now =
         (Inl (Failure 404 ''Post not found''
                 ''The post you are trying to comment on does not exist''), d))
  \<and> (faults \<inter> commentCalls = {} \<and> post_findUnique d postId = Some p
      \<and> p_visibility p = PRIVATE \<and> p_authorId p \<noteq> user_id u \<longrightarrow>
       createComment faults d u postId body newId now =
         (Inl (Failure 403 ''Access denied''
                 ''You cannot comment on this private post''), d))
  \<and> (faults \<inter> commentCalls = {} \<and> post_findUnique d postId = Some p
      \<and> p_visibility p = FRIENDS \<and> p_authorId p \<noteq> user_id u
      \<and> follow_findUnique d (user_id u) (p_authorId p) = None \<longrightarrow>
       createComment faults d u postId body newId now =
         (Inl (Failure 403 ''Access denied'' ''You cannot comment on this post''), d))
  \<and> (faults \<inter> commentCalls = {} \<and> post_findUnique d postId = Some p
      \<and> (p_visibility p = PUBLIC \<or> p_authorId p = user_id u
          \<or> (p_visibility p = FRIENDS
              \<and> follow_findUnique d (user_id u) (p_authorId p) \<noteq> None))
      \<and> (\<forall>c. comment_findUnique d pc = Some c \<longrightarrow> c_postId c \<noteq> postId) \<longrightarrow>
       createComment faults d u postId body newId now =
         (Inl (Failure 404 ''Parent comment not found''
                 ''The comment you are replying to does not exist''), d))
  \<and> (comments (snd (createComment faults d u postId body newId now)) \<noteq> comments d \<longrightarrow>
       (\<exists>c. comment_findUnique d pc = Some c \<and> c_postId c = postId)
       \<and> comments (snd (createComment faults d u postId body newId now)) =
           comments d @ [\<lparr> c_id = newId, c_content = cb_content body, c_userId = user_id u,
                            c_postId = postId, c_parentId = Some pc, c_createdAt = now \<rparr>])
  \<and> ((\<exists>r. fst (createComment faults d u postId body newId now) = Inr r) \<longrightarrow>
       (\<exists>c. comment_findUnique d pc = Some c \<and> c_postId c = postId))"
proof (intro conjI impI)
  assume "faults \<inter> commentCalls = {} \<and> post_findUnique d postId = None"
  then show "createComment faults d u postId body newId now =
         (Inl (Failure 404 ''Post not found''
                 ''The post you are trying to comment on does not exist''), d)"
    by (auto simp: createComment_def commentCalls_def Let_def)
next
  assume "faults \<inter> commentCalls = {} \<and> post_findUnique d postId = Some p
      \<and> p_visibility p = PRIVATE \<and> p_authorId p \<noteq> user_id u"
  then show "createComment faults d u postId body newId now =
         (Inl (Failure 403 ''Access denied''
                 ''You cannot comment on this private post''), d)"
    by (auto simp: createComment_def commentCalls_def Let_def)
next
  assume "faults \<inter> commentCalls = {} \<and> post_findUnique d postId = Some p
      \<and> p_visibility p = FRIENDS \<and> p_authorId p \<noteq> user_id u
      \<and> follow_findUnique d (user_id u) (p_authorId p) = None"
  then show "createComment faults d u postId body newId now =
         (Inl (Failure 403 ''Access denied'' ''You cannot comment on this post''), d)"
    by (auto simp: createComment_def commentCalls_def Let_def)
next
  assume a: "faults \<inter> commentCalls = {} \<and> post_findUnique d postId = Some p
      \<and> (p_visibility p = PUBLIC \<or> p_authorId p = user_id u
          \<or> (p_visibility p = FRIENDS
              \<and> follow_findUnique d (user_id u) (p_authorId p) \<noteq> None))
      \<and> (\<forall>c. comment_findUnique d pc = Some c \<longrightarrow> c_postId c \<noteq> postId)"
  then have f: "PostFindUnique \<notin> faults" "FollowFindUnique \<notin> faults" "CommentFindUnique \<notin> faults"
    by (auto simp: commentCalls_def)
  from a have par: "(case comment_findUnique d pc of None \<Rightarrow> True
                     | Some parentComment \<Rightarrow> c_postId parentComment \<noteq> postId)"
    by (auto split: option.splits)
  from a f par assms show "createComment faults d u postId body newId now =
         (Inl (Failure 404 ''Parent comment not found''
                 ''The comment you are replying to does not exist''), d)"
    by (cases "p_visibility p") (auto simp: createComment_def truthy_def Let_def)
next
  assume ch: "comments (snd (createComment faults d u postId body newId now)) \<noteq> comments d"
  with assms show "\<exists>c. comment_findUnique d pc = Some c \<and> c_postId c = postId"
    by (auto simp: createComment_def truthy_def Let_def split: option.splits if_splits)
  from ch assms show "comments (snd (createComment faults d u postId body newId now)) =
           comments d @ [\<lparr> c_id = newId, c_content = cb_content body, c_userId = user_id u,
                            c_postId = postId, c_parentId = Some pc, c_createdAt = now \<rparr>]"
    by (auto simp: createComment_def truthy_def Let_def split: option.splits if_splits)
next
  assume "\<exists>r. fst (createComment faults d u postId body newId now) = Inr r"
  with assms show "\<exists>c. comment_findUnique d pc = Some c \<and> c_postId c = postId"
    by (auto simp: createComment_def truthy_def Let_def split: option.splits if_splits)
qed

theorem createComment_parent_witness:
  "cb_parentId \<lparr>cb_content = ''hi'', cb_parentId = Some ''c1''\<rparr> = Some ''c1''
   \<and> ''c1'' \<noteq> []
   \<and> {} \<inter> commentCalls = {}
   \<and> post_findUnique sampleDb ''p_public'' = Some (mkPost ''p_public'' ''u_bob'' PUBLIC 300)
   \<and> comment_findUnique sampleDb ''c1'' = Some (mkComment ''c1'' ''u_bob'' ''p_private'' None 210)
   \<and> createComment {} sampleDb alice ''p_public''
        \<lparr>cb_content = ''hi'', cb_parentId = Some ''c1''\<rparr> ''c9'' 999 =
       (Inl (Failure 404 ''Parent comment not found''
               ''The comment you are replying to does not exist''), sampleDb)
   \<and> createComment {} sampleDb alice ''p_none''
        \<lparr>cb_content = ''hi'', cb_parentId = Some ''c1''\<rparr> ''c9'' 999 =
       (Inl (Failure 404 ''Post not found''
               ''The post you are trying to comment on does not exist''), sampleDb)
   \<and> post_findUnique sampleDb ''p_private'' = Some (mkPost ''p_private'' ''u_bob'' PRIVATE 200)
   \<and> createComment {} sampleDb carol ''p_private''
        \<lparr>cb_content = ''hi'', cb_parentId = Some ''c1''\<rparr> ''c9'' 999 =
       (Inl (Failure 403 ''Access denied'' ''You cannot comment on this private post''),
        sampleDb)
   \<and> post_findUnique sampleDb ''p_friends'' = Some (mkPost ''p_friends'' ''u_bob'' FRIENDS 100)
   \<and> follow_findUnique sampleDb (user_id carol) ''u_bob'' = None
   \<and> createComment {} sampleDb carol ''p_friends''
        \<lparr>cb_content = ''hi'', cb_parentId = Some ''c1''\<rparr> ''c9'' 999 =
       (Inl (Failure 403 ''Access denied'' ''You cannot comment on this post''), sampleDb)
   \<and> fst (createComment {} sampleDb bob ''p_private''
        \<lparr>cb_content = ''hi'', cb_parentId = Some ''c1''\<rparr> ''c9'' 999) =
       Inr (Reply 201 ''Comment created successfully''
             \<lparr> c_id = ''c9'', c_content = ''hi'', c_userId = ''u_bob'',
               c_postId = ''p_private'', c_parentId = Some ''c1'', c_createdAt = 999 \<rparr>)
   \<and> comments (snd (createComment {} sampleDb bob ''p_private''
        \<lparr>cb_content = ''hi'', cb_parentId = Some ''c1''\<rparr> ''c9'' 999)) =
       comments sampleDb @
         [\<lparr> c_id = ''c9'', c_content = ''hi'', c_userId = ''u_bob'',
            c_postId = ''p_private'', c_parentId = Some ''c1'', c_createdAt = 999 \<rparr>]"
  using createComment_parent [where body="\<lparr>cb_content = ''hi'', cb_parentId = Some ''c1''\<rparr>"
          and pc="''c1''" and faults="{}" and d=sampleDb and u=alice and postId="''p_public''"
          and p="mkPost ''p_public'' ''u_bob'' PUBLIC 300" and newId="''c9''" and now=999]
    createComment_parent [where body="\<lparr>cb_content = ''hi'', cb_parentId = Some ''c1''\<rparr>"
          and pc="''c1''" and faults="{}" and d=sampleDb and u=alice and postId="''p_none''"
          and p="mkPost ''p_public'' ''u_bob'' PUBLIC 300" and newId="''c9''" and now=999]
    createComment_parent [where body="\<lparr>cb_content = ''hi'', cb_parentId = Some ''c1''\<rparr>"
          and pc="''c1''" and faults="{}" and d=sampleDb and u=bob and postId="''p_private''"
          and p="mkPost ''p_private'' ''u_bob'' PRIVATE 200" and newId="''c9''" and now=999]
    createComment_parent [where body="\<lparr>cb_content = ''hi'', cb_parentId = Some ''c1''\<rparr>"
          and pc="''c1''" and faults="{}" and d=sampleDb and u=carol and postId="''p_private''"
          and p="mkPost ''p_private'' ''u_bob'' PRIVATE 200" and newId="''c9''" and now=999]
    createComment_parent [where body="\<lparr>cb_content = ''hi'', cb_parentId = Some ''c1''\<rparr>"
          and pc="''c1''" and faults="{}" and d=sampleDb and u=carol and postId="''p_friends''"
          and p="mkPost ''p_friends'' ''u_bob'' FRIENDS 100" and newId="''c9''" and now=999]
  by (simp add: sample_defs createComment_def post_findUnique_def comment_findUnique_def
        follow_findUnique_def truthy_def commentCalls_def Let_def)

section \<open>Listing comments\<close>

text \<open>
  C3 does not hold for the two listing handlers. Bob's private post is refused to
  the anonymous viewer and to Carol by \<open>getPostById\<close>, and Carol may not comment
  on it, yet \<open>getPostComments\<close> and \<open>getCommentReplies\<close> hand both of them the
  post's comment and its reply.
\<close>

theorem comment_listing_skips_access_check:
  "getPostById {} sampleDb None ''p_private'' =
     Inl (Failure 403 ''Access denied'' ''You do not have permission to view this post'')
   \<and> getPostById {} sampleDb (Some carol) ''p_private'' =
     Inl (Failure 403 ''Access denied'' ''You do not have permission to view this post'')
   \<and> fst (createComment {} sampleDb carol ''p_private''
        \<lparr>cb_content = ''hi'', cb_parentId = None\<rparr> ''c9'' 999) =
     Inl (Failure 403 ''Access denied'' ''You cannot comment on this private post'')
   \<and> getPostComments {} sampleDb None ''p_private'' \<lparr>q_page = None, q_limit = None\<rparr> =
     Inr (Reply 200 ''Comments retrieved successfully''
           \<lparr> cp_comments =
               [\<lparr> cv_comment = mkComment ''c1'' ''u_bob'' ''p_private'' None 210,
                   cv_replies = [mkComment ''c2'' ''u_bob'' ''p_private'' (Some ''c1'') 220],
                   cv_replyCount = 1 \<rparr>],
             cp_page = 1, cp_limit = 20, cp_total = 1 \<rparr>)
   \<and> getPostComments {} sampleDb (Some carol) ''p_private'' \<lparr>q_page = None, q_limit = None\<rparr> =
     Inr (Reply 200 ''Comments retrieved successfully''
           \<lparr> cp_comments =
               [\<lparr> cv_comment = mkComment ''c1'' ''u_bob'' ''p_private'' None 210,
                   cv_replies = [mkComment ''c2'' ''u_bob'' ''p_private'' (Some ''c1'') 220],
                   cv_replyCount = 1 \<rparr>],
             cp_page = 1, cp_limit = 20, cp_total = 1 \<rparr>)
   \<and> getCommentReplies {} sampleDb None ''c1'' \<lparr>q_page = None, q_limit = None\<rparr> =
     Inr (Reply 200 ''Replies retrieved successfully''
           \<lparr> rp_replies = [mkComment ''c2'' ''u_bob'' ''p_private'' (Some ''c1'') 220],
             rp_page = 1, rp_limit = 10, rp_total = 1 \<rparr>)
   \<and> getCommentReplies {} sampleDb (Some carol) ''c1'' \<lparr>q_page = None, q_limit = None\<rparr> =
     Inr (Reply 200 ''Replies retrieved successfully''
           \<lparr> rp_replies = [mkComment ''c2'' ''u_bob'' ''p_private'' (Some ''c1'') 220],
             rp_page = 1, rp_limit = 10, rp_total = 1 \<rparr>)"
  by (simp add: sample_defs getPostById_def createComment_def getPostComments_def
        getCommentReplies_def post_findUnique_def repliesOf_def pageOf_def limitOr_def
        paginate_def Let_def)

end
